theory Spec2Isabelle
  imports Complex_Main "HOL-Library.Sublist"
begin

section \<open>Python values shared by the two services\<close>

datatype CorrectionLevel = L | M | Q | H

datatype ContentType = URL | TEXT | CONTACT

datatype Format = PNG | SVG

text \<open>
  Modelled from the spec: the module \<open>prisma.enums\<close> is generated client code that is not
  part of the sources; sections 3 and 6 give its three enumerations the member names
  URL/TEXT/CONTACT, L/M/Q/H and PNG/SVG, the names of the service's own classes.

  So two families of enum classes carry these member names.
  \<open>generate_qr_code_service.py\<close> defines \<open>ContentType\<close>, \<open>CorrectionLevel\<close> and
  \<open>Format\<close> as plain \<open>Enum\<close> classes (lines 20-35); \<open>server.py\<close> annotates the route's
  parameters with \<open>prisma.enums.ContentType\<close>, \<open>prisma.enums.CorrectionLevel\<close> and
  \<open>prisma.enums.Format\<close> (lines 61-66). Python does not check the annotations of
  \<open>generate_qr_code\<close>, so the function receives whichever object the caller passes. An
  enum member is therefore modelled with the class it belongs to: \<open>Svc m\<close> is the member
  \<open>m\<close> of the service's class, \<open>Prisma m\<close> the member \<open>m\<close> of the class in
  \<open>prisma.enums\<close>.

  A plain \<open>Enum\<close> defines no \<open>__eq__\<close>: \<open>a == b\<close> with \<open>a\<close> a member of a service class
  holds only when \<open>b\<close> is the same object, and a dictionary keyed by such members finds
  no entry for an object of another class. The equality of the datatype is that
  comparison: \<open>Svc m = Prisma m\<close> is false.
\<close>

datatype 'm enum_obj = Svc 'm | Prisma 'm

text \<open>
  An exception is the \<open>KeyError\<close> of a failed dictionary subscript (it carries the key),
  or an exception raised inside a library, given by its class name and its message:
  \<open>Raised\<close> when the class derives from \<open>Exception\<close>, \<open>RaisedBase\<close> when it derives
  from \<open>BaseException\<close> only (\<open>asyncio.CancelledError\<close>, \<open>KeyboardInterrupt\<close>,
  \<open>SystemExit\<close>), which \<open>except Exception\<close> does not catch.
\<close>

datatype py_exception =
    KeyError "CorrectionLevel enum_obj"
  | Raised string string
  | RaisedBase string string

fun is_Exception :: "py_exception \<Rightarrow> bool" where
  "is_Exception (KeyError k) = True"
| "is_Exception (Raised cls msg) = True"
| "is_Exception (RaisedBase cls msg) = False"

fun name_CorrectionLevel :: "CorrectionLevel \<Rightarrow> string" where
  "name_CorrectionLevel L = ''L''"
| "name_CorrectionLevel M = ''M''"
| "name_CorrectionLevel Q = ''Q''"
| "name_CorrectionLevel H = ''H''"

text \<open>
  \<open>repr\<close> of an enum member is the class name, a dot, the member's name, a colon and
  the \<open>repr\<close> of the value, between angle brackets. The class name and the values are
  the same in both families, and the value is the member's name as a string.
\<close>

fun repr_CorrectionLevel :: "CorrectionLevel enum_obj \<Rightarrow> string" where
  "repr_CorrectionLevel (Svc m) =
     ''<CorrectionLevel.'' @ name_CorrectionLevel m @ '': '' @ [CHR 0x27] @ name_CorrectionLevel m @ [CHR 0x27] @ ''>''"
| "repr_CorrectionLevel (Prisma m) =
     ''<CorrectionLevel.'' @ name_CorrectionLevel m @ '': '' @ [CHR 0x27] @ name_CorrectionLevel m @ [CHR 0x27] @ ''>''"

text \<open>\<open>str(e)\<close>: for a \<open>KeyError\<close> the \<open>repr\<close> of the key, otherwise the message.\<close>

fun str_exception :: "py_exception \<Rightarrow> string" where
  "str_exception (KeyError k) = repr_CorrectionLevel k"
| "str_exception (Raised cls msg) = msg"
| "str_exception (RaisedBase cls msg) = msg"

text \<open>\<open>str\<close> of an integer, in decimal.\<close>

fun str_nat :: "nat \<Rightarrow> string" where
  "str_nat n =
     (if n < 10 then [char_of (48 + n)] else str_nat (n div 10) @ [char_of (48 + n mod 10)])"

declare str_nat.simps [simp del]

definition str_int :: "int \<Rightarrow> string" where
  "str_int i = (if i < 0 then ''-'' @ str_nat (nat (- i)) else str_nat (nat i))"

section \<open>The HTTP responses of \<open>server.py\<close>\<close>

text \<open>
  Both handlers build \<open>Response(content=..., status_code=500, media_type=...)\<close> in their
  \<open>except\<close> branch (lines 49-53 and 80-84), with the dictionary
  \<open>jsonable_encoder(res)\<close> as content. \<open>Response\<close> is Starlette's class, which is not
  part of the sources. Its constructor renders the content at once: \<open>None\<close> gives the
  empty body, bytes are kept, and any other object is sent \<open>.encode(charset)\<close>. A string
  has that method; a dictionary has not, and the attribute access raises.
\<close>

datatype py_content =
    ContentNone
  | ContentBytes string
  | ContentStr string
  | ContentDict "(string \<times> string) list"

record Response =
  body :: string
  status_code :: int
  media_type :: string

definition dict_has_no_encode :: py_exception where
  "dict_has_no_encode =
     Raised ''AttributeError''
       ([CHR 0x27] @ ''dict'' @ [CHR 0x27] @ '' object has no attribute '' @
        [CHR 0x27] @ ''encode'' @ [CHR 0x27])"

fun render :: "py_content \<Rightarrow> py_exception + string" where
  "render ContentNone = Inr []"
| "render (ContentBytes b) = Inr b"
| "render (ContentStr s) = Inr s"
| "render (ContentDict d) = Inl dict_has_no_encode"

definition Response_init :: "py_content \<Rightarrow> int \<Rightarrow> string \<Rightarrow> py_exception + Response" where
  "Response_init content' status mtype =
     (case render content' of
        Inl e \<Rightarrow> Inl e
      | Inr b \<Rightarrow> Inr \<lparr>body = b, status_code = status, media_type = mtype\<rparr>)"

text \<open>
  A handler returns the operation's result model, which the framework serialises with
  its success status, or returns a \<open>Response\<close>, or lets an exception escape; what the
  framework answers to an escaped exception is outside the sources.
\<close>

datatype 'a route_result = Returned 'a | Responded Response | Escaped py_exception

text \<open>
  The \<open>except Exception as e\<close> branch, lines 45-53 and 76-84 of \<open>server.py\<close>, the same
  in both routes: an exception that is not an \<open>Exception\<close> passes through; for the
  others the dictionary with the one key \<open>error\<close> is built and handed to \<open>Response\<close>,
  and an exception raised there leaves the handler.
\<close>

definition except_Exception :: "py_exception \<Rightarrow> 'a route_result" where
  "except_Exception e =
     (if is_Exception e then
        (case Response_init (ContentDict [(''error'', str_exception e)]) 500 ''application/json'' of
           Inr response \<Rightarrow> Responded response
         | Inl e' \<Rightarrow> Escaped e')
      else Escaped e)"

section \<open>\<open>api_key_verification_service.py\<close>\<close>

record APIKeyVerificationResponse =
  is_valid :: bool
  user_id :: "string option"
  role :: "string option"

text \<open>
  Modelled from the spec: the \<open>User\<close> model and the Prisma client are not part of the
  sources. Section 3 gives a Credential Record a unique key, an identity and a role;
  section 4.1 makes the lookup an exact match on the key, and a store that is
  unavailable raises. The lookup reads the store and leaves it as it was.
\<close>

record User =
  id_user :: string
  apiKey :: string
  role_user :: string

datatype db_client = Connected "User list" | Unavailable py_exception

fun find_unique :: "db_client \<Rightarrow> string \<Rightarrow> (py_exception + User option) \<times> db_client" where
  "find_unique (Unavailable e) api_key = (Inl e, Unavailable e)"
| "find_unique (Connected rows) api_key =
     (Inr (find (\<lambda>u. apiKey u = api_key) rows), Connected rows)"

text \<open>
  Lines 30-35. \<open>if user:\<close> is true of every model object and false of \<open>None\<close>.
\<close>

definition api_key_verification ::
  "db_client \<Rightarrow> string \<Rightarrow> (py_exception + APIKeyVerificationResponse) \<times> db_client" where
  "api_key_verification db api_key =
     (case find_unique db api_key of
        (Inl e, db') \<Rightarrow> (Inl e, db')
      | (Inr (Some user), db') \<Rightarrow>
          (Inr \<lparr>is_valid = True, user_id = Some (id_user user), role = Some (role_user user)\<rparr>, db')
      | (Inr None, db') \<Rightarrow>
          (Inr \<lparr>is_valid = False, user_id = None, role = None\<rparr>, db'))"

text \<open>\<open>server.py\<close>, lines 36-53.\<close>

definition api_post_api_key_verification ::
  "db_client \<Rightarrow> string \<Rightarrow> APIKeyVerificationResponse route_result \<times> db_client" where
  "api_post_api_key_verification db api_key =
     (case api_key_verification db api_key of
        (Inr res, db') \<Rightarrow> (Returned res, db')
      | (Inl e, db') \<Rightarrow> (except_Exception e, db'))"

section \<open>\<open>generate_qr_code_service.py\<close>\<close>

record GenerateQRCodeResponse =
  success :: bool
  message :: string
  qrCodeId :: string
  qrCodeURL :: string

subsection \<open>The qrcode library\<close>

text \<open>
  The four constants of \<open>qrcode.constants\<close>. Their numeric values are not in the
  sources; the share of errors each can correct is (the package description quoted at
  lines 189-200: about 7, 15, 25 and 30 per cent).
\<close>

datatype ec_const = ERROR_CORRECT_L | ERROR_CORRECT_M | ERROR_CORRECT_Q | ERROR_CORRECT_H

fun redundancy_percent :: "ec_const \<Rightarrow> nat" where
  "redundancy_percent ERROR_CORRECT_L = 7"
| "redundancy_percent ERROR_CORRECT_M = 15"
| "redundancy_percent ERROR_CORRECT_Q = 25"
| "redundancy_percent ERROR_CORRECT_H = 30"

text \<open>
  The library is a parameter of the model: the constructor \<open>qrcode.QRCode(version,
  error_correction, box_size, border)\<close>, the methods \<open>add_data(data)\<close>, \<open>make(fit)\<close> and
  \<open>make_image(fill_color, back_color)\<close> of the code object, and \<open>save(stream, format)\<close>
  of the image. Each may raise; \<open>add_data\<close> and \<open>make\<close> mutate the code object, so
  they return it. The stream written by \<open>save\<close> is dropped by the caller.
\<close>

record ('qr, 'img) qrcode_lib =
  lib_QRCode :: "int \<Rightarrow> ec_const \<Rightarrow> int \<Rightarrow> int \<Rightarrow> py_exception + 'qr"
  lib_add_data :: "'qr \<Rightarrow> string \<Rightarrow> py_exception + 'qr"
  lib_make :: "'qr \<Rightarrow> bool \<Rightarrow> py_exception + 'qr"
  lib_make_image :: "'qr \<Rightarrow> string \<Rightarrow> string \<Rightarrow> py_exception + 'img"
  lib_save :: "'img \<Rightarrow> string \<Rightarrow> py_exception + unit"

text \<open>
  The sources name the library's version, 7.4.2 (lines 66-68). Its constructor checks
  the box size before anything else and raises \<open>ValueError\<close> when \<open>int(box_size) <= 0\<close>;
  what it does with an accepted box size is the parameter \<open>lib_QRCode\<close>.
\<close>

definition invalid_box_size :: "int \<Rightarrow> py_exception" where
  "invalid_box_size box_size =
     Raised ''ValueError''
       (''Invalid box size (was '' @ str_int box_size @ '', expected larger than 0)'')"

definition QRCode ::
  "('qr, 'img) qrcode_lib \<Rightarrow> int \<Rightarrow> ec_const \<Rightarrow> int \<Rightarrow> int \<Rightarrow> py_exception + 'qr" where
  "QRCode lib version error_correction box_size border =
     (if box_size \<le> 0 then Inl (invalid_box_size box_size)
      else lib_QRCode lib version error_correction box_size border)"

text \<open>
  The calls made to the library are recorded with their arguments, in order, next to the
  result: a computation is the list of calls it made and what it returned or raised.
\<close>

datatype lib_call =
    Call_QRCode int ec_const int int
  | Call_add_data string
  | Call_make bool
  | Call_make_image string string
  | Call_save string

type_synonym 'a traced = "lib_call list \<times> (py_exception + 'a)"

text \<open>
  One call: when it raises, the exception leaves the function at once; otherwise the rest
  of the body runs on its result.
\<close>

definition invoke :: "lib_call \<Rightarrow> py_exception + 'a \<Rightarrow> ('a \<Rightarrow> 'b traced) \<Rightarrow> 'b traced" where
  "invoke c r rest =
     (case r of
        Inl e \<Rightarrow> ([c], Inl e)
      | Inr x \<Rightarrow> (case rest x of (calls, res) \<Rightarrow> (c # calls, res)))"

subsection \<open>The operation\<close>

text \<open>Lines 60-65: a dictionary whose keys are the four members of the service's class.\<close>

definition error_correction_mapping :: "CorrectionLevel enum_obj \<rightharpoonup> ec_const" where
  "error_correction_mapping =
     [Svc L \<mapsto> ERROR_CORRECT_L,
      Svc M \<mapsto> ERROR_CORRECT_M,
      Svc Q \<mapsto> ERROR_CORRECT_Q,
      Svc H \<mapsto> ERROR_CORRECT_H]"

text \<open>The name of a member of \<open>Format\<close> (lines 33-35), which is also its value.\<close>

fun name_Format :: "Format \<Rightarrow> string" where
  "name_Format PNG = ''PNG''"
| "name_Format SVG = ''SVG''"

text \<open>\<open>str.lower\<close>, on the ASCII letters (it is applied to \<open>"PNG"\<close> and \<open>"SVG"\<close> only).\<close>

definition lower_char :: "char \<Rightarrow> char" where
  "lower_char c =
     (let n = (of_char c :: nat) in if 65 \<le> n \<and> n \<le> 90 then char_of (n + 32) else c)"

definition lower :: "string \<Rightarrow> string" where
  "lower s = map lower_char s"

text \<open>
  Lines 38-45, 60-65, 707-712 and 1354-1368. \<open>uuid4\<close> is \<open>str(uuid.uuid4())\<close>, the value
  the random source gives this call; \<open>size'\<close> is the parameter \<open>size\<close>. The arguments of
  \<open>qrcode.QRCode\<close> are evaluated in order, so a failed subscript raises before the
  constructor is entered. \<open>//\<close> is floor division, as \<open>div\<close> on \<open>int\<close> is.
\<close>

definition generate_qr_code ::
  "('qr, 'img) qrcode_lib \<Rightarrow> string \<Rightarrow> ContentType enum_obj \<Rightarrow> string \<Rightarrow> int \<Rightarrow> string \<Rightarrow>
   CorrectionLevel enum_obj \<Rightarrow> Format enum_obj \<Rightarrow> GenerateQRCodeResponse traced" where
  "generate_qr_code lib uuid4 contentType content size' color correctionLevel format =
     (case error_correction_mapping correctionLevel of
        None \<Rightarrow> ([], Inl (KeyError correctionLevel))
      | Some ec \<Rightarrow>
          invoke (Call_QRCode 1 ec (size' div 40) 4)
                 (QRCode lib 1 ec (size' div 40) 4) (\<lambda>qr.
          invoke (Call_add_data content) (lib_add_data lib qr content) (\<lambda>qr.
          invoke (Call_make True) (lib_make lib qr True) (\<lambda>qr.
          invoke (Call_make_image color ''white'')
                 (lib_make_image lib qr color ''white'') (\<lambda>img.
          let img_format = (if format = Svc PNG then ''PNG'' else ''SVG'') in
          invoke (Call_save img_format) (lib_save lib img img_format) (\<lambda>_.
          let qr_code_id = uuid4;
              qr_code_url = ''/path/to/qr/'' @ qr_code_id @ ''.'' @ lower img_format
          in ([], Inr \<lparr>success = True,
                       message = ''QR Code generated successfully.'',
                       qrCodeId = qr_code_id,
                       qrCodeURL = qr_code_url\<rparr>)))))))"

text \<open>
  \<open>server.py\<close>, lines 60-84. The framework converts the request's fields to members of
  the \<open>prisma.enums\<close> classes, and the handler passes those on.
\<close>

definition api_post_generate_qr_code ::
  "('qr, 'img) qrcode_lib \<Rightarrow> string \<Rightarrow> ContentType \<Rightarrow> string \<Rightarrow> int \<Rightarrow> string \<Rightarrow>
   CorrectionLevel \<Rightarrow> Format \<Rightarrow> GenerateQRCodeResponse route_result" where
  "api_post_generate_qr_code lib uuid4 contentType content size' color correctionLevel format =
     (case snd (generate_qr_code lib uuid4 (Prisma contentType) content size' color
                  (Prisma correctionLevel) (Prisma format)) of
        Inr res \<Rightarrow> Returned res
      | Inl e \<Rightarrow> except_Exception e)"

subsection \<open>A sample library\<close>

text \<open>
  A library to run the model on concrete requests: the code object keeps what it was
  given, and no call fails.
\<close>

record qr_object =
  qr_version :: int
  qr_error_correction :: ec_const
  qr_box_size :: int
  qr_border :: int
  qr_data :: "string list"

definition sample_lib :: "(qr_object, qr_object \<times> string \<times> string) qrcode_lib" where
  "sample_lib =
     \<lparr>lib_QRCode = (\<lambda>v ec box border.
        Inr \<lparr>qr_version = v, qr_error_correction = ec, qr_box_size = box,
             qr_border = border, qr_data = []\<rparr>),
      lib_add_data = (\<lambda>qr data. Inr (qr\<lparr>qr_data := qr_data qr @ [data]\<rparr>)),
      lib_make = (\<lambda>qr fit. Inr qr),
      lib_make_image = (\<lambda>qr fill_color back_color. Inr (qr, fill_color, back_color)),
      lib_save = (\<lambda>img fmt. Inr ())\<rparr>"

section \<open>Verification\<close>

lemma find_distinct_key:
  "distinct (map apiKey rows) \<Longrightarrow> u \<in> set rows \<Longrightarrow>
   find (\<lambda>r. apiKey r = apiKey u) rows = Some u"
proof (induction rows)
  case Nil
  then show ?case by simp
next
  case (Cons r rows)
  show ?case
  proof (cases "apiKey r = apiKey u")
    case True
    with Cons.prems have "r = u" by force
    with True show ?thesis by simp
  next
    case False
    with Cons show ?thesis by auto
  qed
qed

lemma find_absent_key:
  "api_key \<notin> apiKey ` set rows \<Longrightarrow> find (\<lambda>r. apiKey r = api_key) rows = None"
  by (induction rows) auto

lemma verification_found:
  "find (\<lambda>r. apiKey r = api_key) rows = Some u \<Longrightarrow>
   api_post_api_key_verification (Connected rows) api_key =
     (Returned \<lparr>is_valid = True, user_id = Some (id_user u), role = Some (role_user u)\<rparr>,
      Connected rows)"
  by (simp add: api_post_api_key_verification_def api_key_verification_def)

lemma verification_not_found:
  "find (\<lambda>r. apiKey r = api_key) rows = None \<Longrightarrow>
   api_post_api_key_verification (Connected rows) api_key =
     (Returned \<lparr>is_valid = False, user_id = None, role = None\<rparr>, Connected rows)"
  by (simp add: api_post_api_key_verification_def api_key_verification_def)

text \<open>
  C1. With the keys of the store unique, the route answers the key of a stored record
  with that record's identity and role and \<open>is_valid = True\<close>, and a key that no record
  carries with \<open>is_valid = False\<close> and no identity or role; both are returned as the
  result model, not as the error response.
\<close>

theorem verification_by_exact_key:
  "(distinct (map apiKey rows) \<longrightarrow>
      (\<forall>u \<in> set rows.
         api_post_api_key_verification (Connected rows) (apiKey u) =
           (Returned \<lparr>is_valid = True, user_id = Some (id_user u), role = Some (role_user u)\<rparr>,
            Connected rows)))
   \<and> (api_key \<notin> apiKey ` set rows \<longrightarrow>
        api_post_api_key_verification (Connected rows) api_key =
          (Returned \<lparr>is_valid = False, user_id = None, role = None\<rparr>, Connected rows))"
  using find_distinct_key [of rows] find_absent_key [of api_key rows]
  by (auto intro: verification_found verification_not_found)

theorem verification_by_exact_key_witness:
  "api_post_api_key_verification
     (Connected [\<lparr>id_user = ''u1'', apiKey = ''k1'', role_user = ''ADMIN''\<rparr>,
                 \<lparr>id_user = ''u2'', apiKey = ''K1'', role_user = ''USER''\<rparr>]) ''K1'' =
     (Returned \<lparr>is_valid = True, user_id = Some ''u2'', role = Some ''USER''\<rparr>,
      Connected [\<lparr>id_user = ''u1'', apiKey = ''k1'', role_user = ''ADMIN''\<rparr>,
                 \<lparr>id_user = ''u2'', apiKey = ''K1'', role_user = ''USER''\<rparr>])
   \<and> api_post_api_key_verification
     (Connected [\<lparr>id_user = ''u1'', apiKey = ''k1'', role_user = ''ADMIN''\<rparr>,
                 \<lparr>id_user = ''u2'', apiKey = ''K1'', role_user = ''USER''\<rparr>]) ''bogus'' =
     (Returned \<lparr>is_valid = False, user_id = None, role = None\<rparr>,
      Connected [\<lparr>id_user = ''u1'', apiKey = ''k1'', role_user = ''ADMIN''\<rparr>,
                 \<lparr>id_user = ''u2'', apiKey = ''K1'', role_user = ''USER''\<rparr>])"
  using verification_by_exact_key
    [of "[\<lparr>id_user = ''u1'', apiKey = ''k1'', role_user = ''ADMIN''\<rparr>,
          \<lparr>id_user = ''u2'', apiKey = ''K1'', role_user = ''USER''\<rparr>]" "''bogus''"]
  by simp

text \<open>
  C9. A call leaves the store as it found it, so a second call with the same key gives
  the same result as the first; this holds of the operation and of the route.
\<close>

theorem verification_idempotent:
  "snd (api_key_verification db api_key) = db
   \<and> api_key_verification (snd (api_key_verification db api_key)) api_key =
       api_key_verification db api_key
   \<and> snd (api_post_api_key_verification db api_key) = db
   \<and> api_post_api_key_verification (snd (api_post_api_key_verification db api_key)) api_key =
       api_post_api_key_verification db api_key"
proof -
  have op: "snd (api_key_verification db api_key) = db"
    by (cases db) (simp_all add: api_key_verification_def split: option.splits)
  have route: "snd (api_post_api_key_verification db api_key) = db"
    using op
    by (cases "api_key_verification db api_key")
       (auto simp add: api_post_api_key_verification_def split: sum.splits)
  show ?thesis
    by (simp add: op route)
qed

section \<open>The \<open>except\<close> branch\<close>

lemma except_Exception_escapes:
  "except_Exception e = Escaped (if is_Exception e then dict_has_no_encode else e)"
  by (simp add: except_Exception_def Response_init_def)

section \<open>Generation\<close>

lemma fst_invoke:
  "fst (invoke c r rest) = c # (case r of Inl e \<Rightarrow> [] | Inr x \<Rightarrow> fst (rest x))"
  by (simp add: invoke_def split: sum.splits prod.splits)

lemma snd_invoke:
  "snd (invoke c r rest) = (case r of Inl e \<Rightarrow> Inl e | Inr x \<Rightarrow> snd (rest x))"
  by (simp add: invoke_def split: sum.splits prod.splits)

lemma lower_PNG: "lower ''PNG'' = ''png''"
  by code_simp

lemma lower_SVG: "lower ''SVG'' = ''svg''"
  by code_simp

lemma mapping_service_member:
  "error_correction_mapping (Svc l) =
     Some (case l of L \<Rightarrow> ERROR_CORRECT_L | M \<Rightarrow> ERROR_CORRECT_M
                   | Q \<Rightarrow> ERROR_CORRECT_Q | H \<Rightarrow> ERROR_CORRECT_H)"
  by (cases l) (simp_all add: error_correction_mapping_def)

lemma mapping_prisma_member: "error_correction_mapping (Prisma l) = None"
  by (simp add: error_correction_mapping_def)

lemma generate_no_key:
  "error_correction_mapping correctionLevel = None \<Longrightarrow>
   generate_qr_code lib uuid4 contentType content size' color correctionLevel format =
     ([], Inl (KeyError correctionLevel))"
  by (simp add: generate_qr_code_def)

lemma generate_prisma_level:
  "generate_qr_code lib uuid4 contentType content size' color (Prisma l) format =
     ([], Inl (KeyError (Prisma l)))"
  by (simp add: generate_no_key mapping_prisma_member)

lemma route_key_error:
  "api_post_generate_qr_code lib uuid4 contentType content size' color l format =
     Escaped dict_has_no_encode"
  by (simp add: api_post_generate_qr_code_def generate_prisma_level except_Exception_escapes)

lemma generate_calls_prefix:
  "error_correction_mapping correctionLevel = Some ec \<Longrightarrow>
   prefix (fst (generate_qr_code lib uuid4 contentType content size' color correctionLevel format))
     [Call_QRCode 1 ec (size' div 40) 4, Call_add_data content, Call_make True,
      Call_make_image color ''white'',
      Call_save (if format = Svc PNG then ''PNG'' else ''SVG'')]"
  by (simp add: generate_qr_code_def fst_invoke Let_def split: sum.splits)

lemma generate_success_response:
  assumes "snd (generate_qr_code lib uuid4 contentType content size' color correctionLevel format) = Inr res"
  shows "res = \<lparr>success = True, message = ''QR Code generated successfully.'',
                qrCodeId = uuid4,
                qrCodeURL = ''/path/to/qr/'' @ uuid4 @ ''.'' @
                   lower (if format = Svc PNG then ''PNG'' else ''SVG'')\<rparr>"
  using assms
  by (auto simp add: generate_qr_code_def snd_invoke Let_def split: option.splits sum.splits)

lemma library_failure_propagates:
  assumes "error_correction_mapping correctionLevel = Some ec"
  shows "QRCode lib 1 ec (size' div 40) 4 = Inl e \<Longrightarrow>
         generate_qr_code lib uuid4 contentType content size' color correctionLevel format =
           ([Call_QRCode 1 ec (size' div 40) 4], Inl e)"
    and "QRCode lib 1 ec (size' div 40) 4 = Inr qr \<Longrightarrow>
         lib_add_data lib qr content = Inl e \<Longrightarrow>
         generate_qr_code lib uuid4 contentType content size' color correctionLevel format =
           ([Call_QRCode 1 ec (size' div 40) 4, Call_add_data content], Inl e)"
    and "QRCode lib 1 ec (size' div 40) 4 = Inr qr \<Longrightarrow>
         lib_add_data lib qr content = Inr qr' \<Longrightarrow>
         lib_make lib qr' True = Inl e \<Longrightarrow>
         generate_qr_code lib uuid4 contentType content size' color correctionLevel format =
           ([Call_QRCode 1 ec (size' div 40) 4, Call_add_data content, Call_make True], Inl e)"
    and "QRCode lib 1 ec (size' div 40) 4 = Inr qr \<Longrightarrow>
         lib_add_data lib qr content = Inr qr' \<Longrightarrow>
         lib_make lib qr' True = Inr qr'' \<Longrightarrow>
         lib_make_image lib qr'' color ''white'' = Inl e \<Longrightarrow>
         generate_qr_code lib uuid4 contentType content size' color correctionLevel format =
           ([Call_QRCode 1 ec (size' div 40) 4, Call_add_data content, Call_make True,
             Call_make_image color ''white''], Inl e)"
    and "QRCode lib 1 ec (size' div 40) 4 = Inr qr \<Longrightarrow>
         lib_add_data lib qr content = Inr qr' \<Longrightarrow>
         lib_make lib qr' True = Inr qr'' \<Longrightarrow>
         lib_make_image lib qr'' color ''white'' = Inr img \<Longrightarrow>
         lib_save lib img (if format = Svc PNG then ''PNG'' else ''SVG'') = Inl e \<Longrightarrow>
         generate_qr_code lib uuid4 contentType content size' color correctionLevel format =
           ([Call_QRCode 1 ec (size' div 40) 4, Call_add_data content, Call_make True,
             Call_make_image color ''white'',
             Call_save (if format = Svc PNG then ''PNG'' else ''SVG'')], Inl e)"
  using assms by (simp_all add: generate_qr_code_def invoke_def)

lemma constructor_frame:
  assumes "g 1 ec (size' div 40) 4 = lib_QRCode lib 1 ec (size' div 40) 4"
    and "error_correction_mapping correctionLevel = Some ec"
  shows "generate_qr_code (lib\<lparr>lib_QRCode := g\<rparr>) uuid4 contentType content size' color
           correctionLevel format =
         generate_qr_code lib uuid4 contentType content size' color correctionLevel format"
  using assms by (simp add: generate_qr_code_def QRCode_def)

lemma sample_request_run:
  "generate_qr_code sample_lib ''u-1'' (Svc URL) ''https://example.com'' 300 ''#00008B''
     (Svc Q) (Svc PNG) =
     ([Call_QRCode 1 ERROR_CORRECT_Q 7 4, Call_add_data ''https://example.com'', Call_make True,
       Call_make_image ''#00008B'' ''white'', Call_save ''PNG''],
      Inr \<lparr>success = True, message = ''QR Code generated successfully.'',
           qrCodeId = ''u-1'', qrCodeURL = ''/path/to/qr/u-1.png''\<rparr>)"
  by (simp add: generate_qr_code_def error_correction_mapping_def invoke_def Let_def
        QRCode_def sample_lib_def lower_PNG)

lemma small_size_raises:
  assumes "size' < 40"
  shows "generate_qr_code lib uuid4 contentType content size' color correctionLevel format =
     (case error_correction_mapping correctionLevel of
        None \<Rightarrow> ([], Inl (KeyError correctionLevel))
      | Some ec \<Rightarrow> ([Call_QRCode 1 ec (size' div 40) 4], Inl (invalid_box_size (size' div 40))))"
proof (cases "error_correction_mapping correctionLevel")
  case None
  then show ?thesis by (simp add: generate_no_key)
next
  case (Some ec)
  from assms have "size' div 40 \<le> 0" by presburger
  then have "QRCode lib 1 ec (size' div 40) 4 = Inl (invalid_box_size (size' div 40))"
    by (simp add: QRCode_def)
  with Some show ?thesis
    by (simp add: library_failure_propagates(1))
qed


text \<open>
  C2 at two requests, one per route: the store is unavailable, or any generation request
  arrives (its level lookup raises, see C8). The handler reaches its \<open>except\<close> branch
  and hands the dictionary to \<open>Response\<close>, whose constructor raises \<open>AttributeError\<close>;
  the exception leaves the handler and no payload with the key \<open>error\<close> is returned.
\<close>

theorem error_branch_raises_instead_of_envelope:
  "Response_init (ContentDict [(''error'', ''store down'')]) 500 ''application/json'' =
     Inl dict_has_no_encode
   \<and> fst (api_post_api_key_verification
            (Unavailable (Raised ''ConnectionError'' ''store down'')) ''k1'') =
       Escaped dict_has_no_encode
   \<and> api_post_generate_qr_code lib uuid4 URL ''https://example.com'' 300 ''#00008B'' Q PNG =
       Escaped dict_has_no_encode"
  by (simp add: Response_init_def api_post_api_key_verification_def api_key_verification_def
        except_Exception_escapes route_key_error)

text \<open>
  C3. For a request whose level is a key of the dictionary, the constructor is applied to
  version 1, the constant of the level, box size \<open>size div 40\<close>, which is the floor of
  \<open>size / 40\<close>, and border 4: an exception of the constructor at these arguments is
  the outcome of the operation, raised after that one call, and the outcome does not
  change when the constructor is replaced by one that agrees with it at these arguments
  and differs anywhere else. When the level is not a key the constructor is not
  consulted at all.
\<close>

theorem encoder_scale_and_border:
  "size' div 40 = \<lfloor>real_of_int size' / 40\<rfloor>
   \<and> (error_correction_mapping correctionLevel = Some ec \<longrightarrow>
        QRCode lib 1 ec (size' div 40) 4 = Inl e \<longrightarrow>
        generate_qr_code lib uuid4 contentType content size' color correctionLevel format =
          ([Call_QRCode 1 ec (size' div 40) 4], Inl e))
   \<and> (error_correction_mapping correctionLevel = Some ec \<longrightarrow>
        g 1 ec (size' div 40) 4 = lib_QRCode lib 1 ec (size' div 40) 4 \<longrightarrow>
        generate_qr_code (lib\<lparr>lib_QRCode := g\<rparr>) uuid4 contentType content size' color
          correctionLevel format =
        generate_qr_code lib uuid4 contentType content size' color correctionLevel format)
   \<and> (error_correction_mapping correctionLevel = None \<longrightarrow>
        generate_qr_code (lib\<lparr>lib_QRCode := g\<rparr>) uuid4 contentType content size' color
          correctionLevel format =
        generate_qr_code lib uuid4 contentType content size' color correctionLevel format)"
proof -
  have floor: "size' div 40 = \<lfloor>real_of_int size' / 40\<rfloor>"
    using floor_divide_of_int_eq [of size' 40, where ?'a = real] by simp
  have raised: "error_correction_mapping correctionLevel = Some ec \<Longrightarrow>
        QRCode lib 1 ec (size' div 40) 4 = Inl e \<Longrightarrow>
        generate_qr_code lib uuid4 contentType content size' color correctionLevel format =
          ([Call_QRCode 1 ec (size' div 40) 4], Inl e)"
    by (rule library_failure_propagates(1))
  have frame: "error_correction_mapping correctionLevel = Some ec \<Longrightarrow>
        g 1 ec (size' div 40) 4 = lib_QRCode lib 1 ec (size' div 40) 4 \<Longrightarrow>
        generate_qr_code (lib\<lparr>lib_QRCode := g\<rparr>) uuid4 contentType content size' color
          correctionLevel format =
        generate_qr_code lib uuid4 contentType content size' color correctionLevel format"
    by (simp add: constructor_frame)
  have nokey: "error_correction_mapping correctionLevel = None \<Longrightarrow>
        generate_qr_code (lib\<lparr>lib_QRCode := g\<rparr>) uuid4 contentType content size' color
          correctionLevel format =
        generate_qr_code lib uuid4 contentType content size' color correctionLevel format"
    by (simp add: generate_no_key)
  show ?thesis
    using floor raised frame nokey by blast
qed


theorem encoder_scale_and_border_witness:
  "(300::int) div 40 = \<lfloor>real_of_int 300 / 40\<rfloor>
   \<and> generate_qr_code
         (sample_lib\<lparr>lib_QRCode := (\<lambda>v ec b bd. Inl (Raised ''DataOverflowError'' ''too long''))\<rparr>)
         ''u-1'' (Svc URL) ''https://example.com'' 300 ''#00008B'' (Svc Q) (Svc PNG) =
       ([Call_QRCode 1 ERROR_CORRECT_Q 7 4], Inl (Raised ''DataOverflowError'' ''too long''))
   \<and> generate_qr_code
         (sample_lib\<lparr>lib_QRCode := (\<lambda>v ec b bd.
            if v = 1 \<and> ec = ERROR_CORRECT_Q \<and> b = 7 \<and> bd = 4
            then lib_QRCode sample_lib v ec b bd
            else Inl (Raised ''TypeError'' ''other arguments''))\<rparr>)
         ''u-1'' (Svc URL) ''https://example.com'' 300 ''#00008B'' (Svc Q) (Svc PNG) =
       generate_qr_code sample_lib
         ''u-1'' (Svc URL) ''https://example.com'' 300 ''#00008B'' (Svc Q) (Svc PNG)
   \<and> generate_qr_code
         (sample_lib\<lparr>lib_QRCode := (\<lambda>v ec b bd. Inl (Raised ''DataOverflowError'' ''too long''))\<rparr>)
         ''u-1'' (Svc URL) ''https://example.com'' 300 ''#00008B'' (Prisma Q) (Svc PNG) =
       generate_qr_code sample_lib
         ''u-1'' (Svc URL) ''https://example.com'' 300 ''#00008B'' (Prisma Q) (Svc PNG)"
proof -
  let ?failing = "\<lambda>(v::int) (ec::ec_const) (b::int) (bd::int).
      (Inl (Raised ''DataOverflowError'' ''too long'') :: py_exception + qr_object)"
  let ?agreeing = "\<lambda>(v::int) ec (b::int) (bd::int).
      if v = 1 \<and> ec = ERROR_CORRECT_Q \<and> b = 7 \<and> bd = 4
      then lib_QRCode sample_lib v ec b bd
      else Inl (Raised ''TypeError'' ''other arguments'')"
  have key: "error_correction_mapping (Svc Q) = Some ERROR_CORRECT_Q"
    by (simp add: mapping_service_member)
  have nokey: "error_correction_mapping (Prisma Q) = None"
    by (simp add: mapping_prisma_member)
  have scale: "(300::int) div 40 = 7"
    by simp
  have fails: "QRCode (sample_lib\<lparr>lib_QRCode := ?failing\<rparr>) 1 ERROR_CORRECT_Q (300 div 40) 4 =
                 Inl (Raised ''DataOverflowError'' ''too long'')"
    by (simp add: QRCode_def)
  have agrees: "?agreeing 1 ERROR_CORRECT_Q (300 div 40) 4 =
                  lib_QRCode sample_lib 1 ERROR_CORRECT_Q (300 div 40) 4"
    by simp
  note raised = encoder_scale_and_border
      [where lib = "sample_lib\<lparr>lib_QRCode := ?failing\<rparr>" and correctionLevel = "Svc Q"
         and ec = ERROR_CORRECT_Q and size' = 300
         and e = "Raised ''DataOverflowError'' ''too long''" and g = ?failing
         and ?uuid4.0 = "''u-1''" and contentType = "Svc URL"
         and content = "''https://example.com''" and color = "''#00008B''"
         and format = "Svc PNG"]
  note frame = encoder_scale_and_border
      [where lib = sample_lib and correctionLevel = "Svc Q"
         and ec = ERROR_CORRECT_Q and size' = 300 and g = ?agreeing
         and ?uuid4.0 = "''u-1''" and contentType = "Svc URL"
         and content = "''https://example.com''" and color = "''#00008B''"
         and format = "Svc PNG"]
  note unused = encoder_scale_and_border
      [where lib = sample_lib and correctionLevel = "Prisma Q"
         and size' = 300 and g = ?failing
         and ?uuid4.0 = "''u-1''" and contentType = "Svc URL"
         and content = "''https://example.com''" and color = "''#00008B''"
         and format = "Svc PNG"]
  have a: "(300::int) div 40 = \<lfloor>real_of_int 300 / 40\<rfloor>"
    using raised by blast
  have b: "generate_qr_code (sample_lib\<lparr>lib_QRCode := ?failing\<rparr>)
         ''u-1'' (Svc URL) ''https://example.com'' 300 ''#00008B'' (Svc Q) (Svc PNG) =
       ([Call_QRCode 1 ERROR_CORRECT_Q 7 4], Inl (Raised ''DataOverflowError'' ''too long''))"
    using raised key fails scale by metis
  have c: "generate_qr_code (sample_lib\<lparr>lib_QRCode := ?agreeing\<rparr>)
         ''u-1'' (Svc URL) ''https://example.com'' 300 ''#00008B'' (Svc Q) (Svc PNG) =
       generate_qr_code sample_lib
         ''u-1'' (Svc URL) ''https://example.com'' 300 ''#00008B'' (Svc Q) (Svc PNG)"
    using frame key agrees by blast
  have d: "generate_qr_code (sample_lib\<lparr>lib_QRCode := ?failing\<rparr>)
         ''u-1'' (Svc URL) ''https://example.com'' 300 ''#00008B'' (Prisma Q) (Svc PNG) =
       generate_qr_code sample_lib
         ''u-1'' (Svc URL) ''https://example.com'' 300 ''#00008B'' (Prisma Q) (Svc PNG)"
    using unused nokey by (simp add: sample_lib_def)
  show ?thesis
    using a b c d by blast
qed

text \<open>
  C4, as the code has it. For a request with \<open>size < 40\<close> the box size handed to the
  constructor is the floor of \<open>size / 40\<close>, which is not positive: zero from 0 to 39 and
  negative below 0. The operation then raises: the constructor refuses the box size
  when the level is a key of the dictionary, and the subscript has raised before
  otherwise. The route returns no result model.
\<close>

theorem small_size_scale_and_failure:
  "size' < 40 \<Longrightarrow>
   size' div 40 \<le> 0 \<and> (size' div 40 = 0 \<longleftrightarrow> 0 \<le> size')
   \<and> (error_correction_mapping correctionLevel = Some ec \<longrightarrow>
        generate_qr_code lib uuid4 contentType content size' color correctionLevel format =
          ([Call_QRCode 1 ec (size' div 40) 4], Inl (invalid_box_size (size' div 40))))
   \<and> isl (snd (generate_qr_code lib uuid4 contentType content size' color correctionLevel format))
   \<and> (\<forall>res. api_post_generate_qr_code lib uuid4 ct content size' color l f \<noteq> Returned res)"
proof -
  assume small: "size' < 40"
  have nonpos: "size' div 40 \<le> 0" and zero: "size' div 40 = 0 \<longleftrightarrow> 0 \<le> size'"
    using small by presburger+
  have refused: "error_correction_mapping correctionLevel = Some ec \<Longrightarrow>
        generate_qr_code lib uuid4 contentType content size' color correctionLevel format =
          ([Call_QRCode 1 ec (size' div 40) 4], Inl (invalid_box_size (size' div 40)))"
    using small by (simp add: small_size_raises)
  have fails: "isl (snd (generate_qr_code lib uuid4 contentType content size' color
                           correctionLevel format))"
    using small by (simp add: small_size_raises split: option.splits)
  have "isl (snd (generate_qr_code lib uuid4 (Prisma ct) content size' color (Prisma l) (Prisma f)))"
    using small by (simp add: small_size_raises split: option.splits)
  then have route: "api_post_generate_qr_code lib uuid4 ct content size' color l f \<noteq> Returned res"
    for res
    by (auto simp add: api_post_generate_qr_code_def isl_def except_Exception_escapes)
  show ?thesis
    using nonpos zero refused fails route by blast
qed

theorem small_size_scale_and_failure_witness:
  "(39::int) < 40 \<and> (39::int) div 40 = 0
   \<and> generate_qr_code sample_lib ''u-1'' (Svc URL) ''https://example.com'' 39 ''#00008B''
        (Svc Q) (Svc PNG) =
       ([Call_QRCode 1 ERROR_CORRECT_Q 0 4], Inl (invalid_box_size 0))
   \<and> api_post_generate_qr_code sample_lib ''u-1'' URL ''https://example.com'' 39 ''#00008B''
        Q PNG \<noteq>
       Returned \<lparr>success = True, message = ''QR Code generated successfully.'',
                 qrCodeId = ''u-1'', qrCodeURL = ''/path/to/qr/u-1.png''\<rparr>"
proof -
  have small: "(39::int) < 40" by simp
  have key: "error_correction_mapping (Svc Q) = Some ERROR_CORRECT_Q"
    by (simp add: mapping_service_member)
  from small_size_scale_and_failure
         [OF small, where lib = sample_lib and ?uuid4.0 = "''u-1''" and contentType = "Svc URL"
            and content = "''https://example.com''" and color = "''#00008B''"
            and correctionLevel = "Svc Q" and format = "Svc PNG" and ec = ERROR_CORRECT_Q
            and ct = URL and l = Q and f = PNG] key
  show ?thesis
    by simp
qed

text \<open>
  C4 as stated fails on the scale: a request with \<open>size = -1\<close> is below 40 and the
  constructor is called with box size -1, not zero.
\<close>

theorem negative_size_scale_counterexample:
  "(- 1 :: int) < 40
   \<and> fst (generate_qr_code sample_lib ''u-1'' (Svc URL) ''https://example.com'' (- 1)
             ''#00008B'' (Svc Q) (Svc PNG)) = [Call_QRCode 1 ERROR_CORRECT_Q (- 1) 4]
   \<and> (- 1 :: int) \<noteq> 0"
  by (simp add: generate_qr_code_def error_correction_mapping_def invoke_def QRCode_def)

text \<open>
  C5. A response that the operation returns for a format of the service's class has
  \<open>success = True\<close>, the fixed message, the drawn identifier, and the location
  \<open>/path/to/qr/\<close>, identifier, dot, lower-cased name of the format; the location ends in
  \<open>.png\<close> for PNG and in \<open>.svg\<close> for SVG.
\<close>

theorem success_response_fields:
  "snd (generate_qr_code lib uuid4 contentType content size' color correctionLevel (Svc f)) = Inr res
   \<Longrightarrow> success res = True
     \<and> message res = ''QR Code generated successfully.''
     \<and> qrCodeId res = uuid4
     \<and> qrCodeURL res = ''/path/to/qr/'' @ qrCodeId res @ ''.'' @ lower (name_Format f)
     \<and> suffix (''.'' @ lower (name_Format f)) (qrCodeURL res)
     \<and> lower (name_Format PNG) = ''png'' \<and> lower (name_Format SVG) = ''svg''"
proof -
  assume "snd (generate_qr_code lib uuid4 contentType content size' color correctionLevel (Svc f)) = Inr res"
  then have res: "res = \<lparr>success = True, message = ''QR Code generated successfully.'',
                qrCodeId = uuid4,
                qrCodeURL = ''/path/to/qr/'' @ uuid4 @ ''.'' @
                   lower (if Svc f = Svc PNG then ''PNG'' else ''SVG'')\<rparr>"
    by (rule generate_success_response)
  have name: "(if Svc f = Svc PNG then ''PNG'' else ''SVG'') = name_Format f"
    by (cases f) simp_all
  have url: "qrCodeURL res = ''/path/to/qr/'' @ uuid4 @ ''.'' @ lower (name_Format f)"
    unfolding res name by simp
  have "suffix (''.'' @ lower (name_Format f)) ((''/path/to/qr/'' @ uuid4) @ ''.'' @ lower (name_Format f))"
    by (rule suffix_appendI) simp
  then have ends: "suffix (''.'' @ lower (name_Format f)) (qrCodeURL res)"
    using url by simp
  show ?thesis
    using url ends by (simp add: res lower_PNG lower_SVG)
qed

theorem success_response_fields_witness:
  "snd (generate_qr_code sample_lib ''u-1'' (Svc URL) ''https://example.com'' 300 ''#00008B''
          (Svc Q) (Svc PNG)) =
     Inr \<lparr>success = True, message = ''QR Code generated successfully.'',
          qrCodeId = ''u-1'', qrCodeURL = ''/path/to/qr/u-1.png''\<rparr>
   \<and> suffix ''.png'' ''/path/to/qr/u-1.png''"
proof -
  have run: "snd (generate_qr_code sample_lib ''u-1'' (Svc URL) ''https://example.com'' 300 ''#00008B''
          (Svc Q) (Svc PNG)) =
     Inr \<lparr>success = True, message = ''QR Code generated successfully.'',
          qrCodeId = ''u-1'', qrCodeURL = ''/path/to/qr/u-1.png''\<rparr>"
    by (simp add: sample_request_run)
  from success_response_fields [OF run] run
  show ?thesis by (simp add: lower_PNG)
qed

text \<open>
  The comparison at line 1358 is with the service's \<open>Format.PNG\<close>; the member \<open>PNG\<close> of
  the other class takes the \<open>else\<close> branch, as the service's \<open>SVG\<close> does.
\<close>

lemma prisma_png_takes_svg_branch:
  "generate_qr_code lib uuid4 contentType content size' color correctionLevel (Prisma PNG) =
   generate_qr_code lib uuid4 contentType content size' color correctionLevel (Svc SVG)"
  by (simp add: generate_qr_code_def)

text \<open>
  C6. The content type is not read: two requests that differ in it only make the same
  calls to the library with the same arguments and return the same result or raise the
  same exception, and the route gives the same answer.
\<close>

theorem content_type_not_interpreted:
  "generate_qr_code lib uuid4 contentType content size' color correctionLevel format =
     generate_qr_code lib uuid4 contentType' content size' color correctionLevel format
   \<and> api_post_generate_qr_code lib uuid4 ct content size' color l f =
       api_post_generate_qr_code lib uuid4 ct' content size' color l f"
  by (simp add: generate_qr_code_def api_post_generate_qr_code_def)

text \<open>
  C8 at a request of the route: the level arrives as the member \<open>Q\<close> of
  \<open>prisma.enums.CorrectionLevel\<close>, which is not a key of the dictionary, so the subscript
  raises \<open>KeyError\<close> before the library is called, and the route returns no result model.
\<close>

theorem route_level_lookup_raises:
  "error_correction_mapping (Prisma Q) = None
   \<and> generate_qr_code lib uuid4 (Prisma URL) ''https://example.com'' 300 ''#00008B''
        (Prisma Q) (Prisma PNG) = ([], Inl (KeyError (Prisma Q)))
   \<and> api_post_generate_qr_code lib uuid4 URL ''https://example.com'' 300 ''#00008B'' Q PNG \<noteq>
       Returned res"
  by (simp add: mapping_prisma_member generate_prisma_level route_key_error)

text \<open>
  The rest of C8 holds: the four members of the service's class are keys, each mapped to
  the constant of its name, and the constants are ordered by the share of errors they
  correct.
\<close>

lemma service_levels_are_keys:
  "error_correction_mapping (Svc L) = Some ERROR_CORRECT_L
   \<and> error_correction_mapping (Svc M) = Some ERROR_CORRECT_M
   \<and> error_correction_mapping (Svc Q) = Some ERROR_CORRECT_Q
   \<and> error_correction_mapping (Svc H) = Some ERROR_CORRECT_H
   \<and> dom error_correction_mapping = range Svc"
proof -
  have "k \<in> dom error_correction_mapping \<longleftrightarrow> k \<in> range Svc" for k
    by (cases k) (auto simp add: mapping_service_member mapping_prisma_member)
  then have "dom error_correction_mapping = range Svc"
    by blast
  then show ?thesis
    by (simp add: mapping_service_member)
qed

lemma redundancy_increases:
  "redundancy_percent ERROR_CORRECT_L < redundancy_percent ERROR_CORRECT_M
   \<and> redundancy_percent ERROR_CORRECT_M < redundancy_percent ERROR_CORRECT_Q
   \<and> redundancy_percent ERROR_CORRECT_Q < redundancy_percent ERROR_CORRECT_H"
  by simp

text \<open>
  C10. Every response that the operation returns has \<open>success = True\<close>: the operation
  has one \<open>return\<close>, and every other way out of it is a raised exception.
\<close>

theorem success_flag_always_true:
  "snd (generate_qr_code lib uuid4 contentType content size' color correctionLevel format) = Inr res
   \<Longrightarrow> success res = True"
  using generate_success_response
          [of lib uuid4 contentType content size' color correctionLevel format res]
  by simp

theorem success_flag_always_true_witness:
  "snd (generate_qr_code sample_lib ''u-1'' (Svc URL) ''https://example.com'' 300 ''#00008B''
          (Svc Q) (Svc PNG)) =
     Inr \<lparr>success = True, message = ''QR Code generated successfully.'',
          qrCodeId = ''u-1'', qrCodeURL = ''/path/to/qr/u-1.png''\<rparr>
   \<and> success \<lparr>success = True, message = ''QR Code generated successfully.'',
          qrCodeId = ''u-1'', qrCodeURL = ''/path/to/qr/u-1.png''\<rparr> = True"
proof -
  have run: "snd (generate_qr_code sample_lib ''u-1'' (Svc URL) ''https://example.com'' 300 ''#00008B''
          (Svc Q) (Svc PNG)) =
     Inr \<lparr>success = True, message = ''QR Code generated successfully.'',
          qrCodeId = ''u-1'', qrCodeURL = ''/path/to/qr/u-1.png''\<rparr>"
    by (simp add: sample_request_run)
  from success_flag_always_true [OF run] run
  show ?thesis by simp
qed


end
